theory Spec2Isabelle
  imports Main "HOL-Library.AList"
begin

section \<open>JavaScript values used by script.js\<close>

text \<open>
  The tracker of \<^verbatim>\<open>script.js\<close> works on three kinds of JavaScript values: strings
  (times such as \<^verbatim>\<open>"12:15"\<close>, day keys such as \<^verbatim>\<open>"2-11-2026"\<close>), the value
  \<^verbatim>\<open>undefined\<close> (a property that is absent) and numbers.

  Numbers are modelled on the integer fragment: \<open>Fin n\<close> is the integer \<open>n\<close>, \<open>NaN\<close> is
  not-a-number. JavaScript numbers are IEEE doubles, on which integer arithmetic is exact
  for magnitudes below \<open>2 ^ 53\<close>; the model is exact there. Negative zero is identified
  with zero (\<^verbatim>\<open>String(-0)\<close> is \<^verbatim>\<open>"0"\<close>, and the code observes numbers only
  through \<^verbatim>\<open>String\<close> and comparisons).

  Strings are lists of 8-bit characters; they are compared by character code, as JavaScript
  compares UTF-16 code units, which agrees on ASCII text.
\<close>

datatype jsval = Undefined | Str string

datatype jsnum = NaN | Fin int

datatype error = TypeError

subsection \<open>Relational operators\<close>

fun str_lt :: "string \<Rightarrow> string \<Rightarrow> bool" where
  "str_lt [] [] = False"
| "str_lt [] (y # ys) = True"
| "str_lt (x # xs) [] = False"
| "str_lt (x # xs) (y # ys) =
     ((of_char x :: nat) < of_char y \<or> (x = y \<and> str_lt xs ys))"

text \<open>
  \<^verbatim>\<open>a < b\<close>, \<^verbatim>\<open>a > b\<close>, \<^verbatim>\<open>a <= b\<close>, \<^verbatim>\<open>a >= b\<close>: two strings are compared
  lexicographically; when an operand is \<^verbatim>\<open>undefined\<close> both are converted to numbers,
  \<^verbatim>\<open>undefined\<close> becomes NaN and every comparison with NaN is false.
\<close>

fun js_lt :: "jsval \<Rightarrow> jsval \<Rightarrow> bool" where
  "js_lt (Str a) (Str b) = str_lt a b"
| "js_lt _ _ = False"

definition js_gt :: "jsval \<Rightarrow> jsval \<Rightarrow> bool" where
  "js_gt a b = js_lt b a"

fun js_le :: "jsval \<Rightarrow> jsval \<Rightarrow> bool" where
  "js_le (Str a) (Str b) = (\<not> str_lt b a)"
| "js_le _ _ = False"

definition js_ge :: "jsval \<Rightarrow> jsval \<Rightarrow> bool" where
  "js_ge a b = js_le b a"

subsection \<open>Numbers and strings\<close>

definition is_digit :: "char \<Rightarrow> bool" where
  "is_digit c = (48 \<le> (of_char c :: nat) \<and> (of_char c :: nat) \<le> 57)"

definition digit_val :: "char \<Rightarrow> nat" where
  "digit_val c = of_char c - 48"

definition digits_val :: "string \<Rightarrow> nat" where
  "digits_val s = foldl (\<lambda>acc c. 10 * acc + digit_val c) 0 s"

definition all_digits :: "string \<Rightarrow> bool" where
  "all_digits s = (s \<noteq> [] \<and> list_all is_digit s)"

text \<open>
  \<^verbatim>\<open>Number(s)\<close> for a string \<open>s\<close>: the empty string is 0, an optionally signed run of
  decimal digits is that integer, and a string that is no numeric literal is NaN. Numeric
  literals in other notations (a fraction or an exponent, a \<^verbatim>\<open>0x\<close>, \<^verbatim>\<open>0o\<close> or
  \<^verbatim>\<open>0b\<close> prefix, \<^verbatim>\<open>Infinity\<close>, white space) have readings that the integer fragment
  does not represent; the tracker produces no string of that form, and the model reads
  them as NaN. So whenever JavaScript reads NaN the model does, and whenever the model
  reads an integer JavaScript reads the same one.
\<close>

definition Number :: "string \<Rightarrow> jsnum" where
  "Number s =
     (if s = [] then Fin 0
      else if all_digits s then Fin (int (digits_val s))
      else if hd s = CHR ''+'' \<and> all_digits (tl s) then Fin (int (digits_val (tl s)))
      else if hd s = CHR ''-'' \<and> all_digits (tl s) then Fin (- int (digits_val (tl s)))
      else NaN)"

text \<open>\<^verbatim>\<open>ToNumber\<close> of a value that may be \<^verbatim>\<open>undefined\<close>.\<close>

fun ToNumber :: "jsval \<Rightarrow> jsnum" where
  "ToNumber Undefined = NaN"
| "ToNumber (Str s) = Number s"

fun js_add :: "jsnum \<Rightarrow> jsnum \<Rightarrow> jsnum" where
  "js_add (Fin a) (Fin b) = Fin (a + b)"
| "js_add _ _ = NaN"

fun js_mul :: "jsnum \<Rightarrow> jsnum \<Rightarrow> jsnum" where
  "js_mul (Fin a) (Fin b) = Fin (a * b)"
| "js_mul _ _ = NaN"

text \<open>
  \<^verbatim>\<open>Math.floor(a / b)\<close> for integers and a positive divisor is the floor quotient,
  which is \<open>div\<close> on \<open>int\<close>.
\<close>

fun floor_div :: "jsnum \<Rightarrow> int \<Rightarrow> jsnum" where
  "floor_div (Fin a) b = Fin (a div b)"
| "floor_div NaN b = NaN"

text \<open>
  The operator \<^verbatim>\<open>%\<close> is the remainder of the division truncated towards zero: its
  result has the sign of the dividend, so \<^verbatim>\<open>-10 % 60\<close> is \<^verbatim>\<open>-10\<close>.
\<close>

definition trunc_rem :: "int \<Rightarrow> int \<Rightarrow> int" where
  "trunc_rem a b = sgn a * (\<bar>a\<bar> mod \<bar>b\<bar>)"

fun js_rem :: "jsnum \<Rightarrow> int \<Rightarrow> jsnum" where
  "js_rem (Fin a) b = Fin (trunc_rem a b)"
| "js_rem NaN b = NaN"

definition digit_char :: "nat \<Rightarrow> char" where
  "digit_char d = ''0123456789'' ! d"

fun digits_of :: "nat \<Rightarrow> string" where
  "digits_of n =
     (if n < 10 then [digit_char n] else digits_of (n div 10) @ [digit_char (n mod 10)])"

declare digits_of.simps [simp del]

text \<open>\<^verbatim>\<open>String(n)\<close> for an integer below \<open>10 ^ 21\<close> in magnitude, and for NaN.\<close>

fun String :: "jsnum \<Rightarrow> string" where
  "String NaN = ''NaN''"
| "String (Fin n) = (if n < 0 then CHR ''-'' # digits_of (nat (- n)) else digits_of (nat n))"

text \<open>\<^verbatim>\<open>s.padStart(2, '0')\<close>: strings of length 2 or more are returned as they are.\<close>

definition padStart2 :: "string \<Rightarrow> string" where
  "padStart2 s = replicate (2 - length s) CHR ''0'' @ s"

text \<open>
  \<^verbatim>\<open>s.split(c)\<close> for a one-character separator: the result is never empty, and the
  empty string splits into one empty string.
\<close>

fun split :: "char \<Rightarrow> string \<Rightarrow> string list" where
  "split c [] = [[]]"
| "split c (x # xs) =
     (if x = c then [] # split c xs
      else (case split c xs of [] \<Rightarrow> [[x]] | y # ys \<Rightarrow> (x # y) # ys))"

text \<open>
  Reading element \<open>i\<close> of an array by destructuring: \<^verbatim>\<open>undefined\<close> beyond the end.
\<close>

definition elem :: "string list \<Rightarrow> nat \<Rightarrow> jsval" where
  "elem xs i = (if i < length xs then Str (xs ! i) else Undefined)"

section \<open>TimeMath: the utility functions\<close>

text \<open>
  \<^verbatim>\<open>function isTimeInRange(current, start, end) {
    return current >= start && current <= end; }\<close>
\<close>

definition isTimeInRange :: "jsval \<Rightarrow> jsval \<Rightarrow> jsval \<Rightarrow> bool" where
  "isTimeInRange current start end' = (js_ge current start \<and> js_le current end')"

text \<open>
  \<^verbatim>\<open>function addMinutes(time, minutes) {
    const [h, m] = time.split(':').map(Number);
    const totalMinutes = h * 60 + m + minutes;
    const newH = Math.floor(totalMinutes / 60) % 24;
    const newM = totalMinutes % 60;
    return `${String(newH).padStart(2, '0')}:${String(newM).padStart(2, '0')}`; }\<close>

  Calling \<^verbatim>\<open>split\<close> on \<^verbatim>\<open>undefined\<close> throws a TypeError. After \<^verbatim>\<open>map(Number)\<close>
  a missing second element is \<^verbatim>\<open>undefined\<close>, which the addition converts to NaN.
\<close>

fun addMinutes :: "jsval \<Rightarrow> int \<Rightarrow> error + string" where
  "addMinutes Undefined minutes = Inl TypeError"
| "addMinutes (Str time) minutes =
     (let parts = split CHR '':'' time;
          h = ToNumber (elem parts 0);
          m = ToNumber (elem parts 1);
          totalMinutes = js_add (js_add (js_mul h (Fin 60)) m) (Fin minutes);
          newH = js_rem (floor_div totalMinutes 60) 24;
          newM = js_rem totalMinutes 60
      in Inr (padStart2 (String newH) @ '':'' @ padStart2 (String newM)))"

text \<open>
  \<^verbatim>\<open>function subtractMinutes(time, minutes) { return addMinutes(time, -minutes); }\<close>
\<close>

definition subtractMinutes :: "jsval \<Rightarrow> int \<Rightarrow> error + string" where
  "subtractMinutes time minutes = addMinutes time (- minutes)"

section \<open>The prayer-time table\<close>

text \<open>
  A JavaScript object is a list of properties in insertion order (the order
  \<^verbatim>\<open>Object.keys\<close> reports for keys that are not array indices): assigning to a
  present key replaces its value in place, assigning to an absent key appends it
  (\<open>AList.update\<close>), \<^verbatim>\<open>delete\<close> removes it (\<open>AList.delete\<close>), and reading an absent
  key gives \<^verbatim>\<open>undefined\<close> (\<open>map_of\<close> gives \<open>None\<close>).
\<close>

type_synonym 'v obj = "(string \<times> 'v) list"

definition keys :: "'v obj \<Rightarrow> string list" where
  "keys m = map fst m"

text \<open>Reading a property whose value is a string or \<^verbatim>\<open>undefined\<close>.\<close>

definition lookup :: "jsval obj \<Rightarrow> string \<Rightarrow> jsval" where
  "lookup m k = (case map_of m k of None \<Rightarrow> Undefined | Some v \<Rightarrow> v)"

text \<open>\<^verbatim>\<open>xs.indexOf(x)\<close>: the first position of \<open>x\<close>, or \<open>-1\<close>.\<close>

fun indexOf :: "string list \<Rightarrow> string \<Rightarrow> int" where
  "indexOf [] x = - 1"
| "indexOf (y # ys) x =
     (if y = x then 0 else (let i = indexOf ys x in if i < 0 then - 1 else i + 1))"

text \<open>The six timings that the schedule API returns for a day.\<close>

record timings =
  Fajr :: jsval
  Sunrise :: jsval
  Dhuhr :: jsval
  Asr :: jsval
  Maghrib :: jsval
  Isha :: jsval

text \<open>
  The table that \<^verbatim>\<open>fetchPrayerTimes\<close> assigns to \<^verbatim>\<open>prayerTimes\<close> (lines 105 to
  117): the six timings in this order and, on a Friday
  (\<^verbatim>\<open>today.getDay() === 5\<close>), \<^verbatim>\<open>prayerTimes.Jummah = prayerTimes.Dhuhr\<close>, which
  appends the key \<^verbatim>\<open>Jummah\<close> after \<^verbatim>\<open>Isha\<close>.
\<close>

definition fetchPrayerTimes :: "timings \<Rightarrow> bool \<Rightarrow> jsval obj" where
  "fetchPrayerTimes tm friday =
     (let prayerTimes =
            [(''Fajr'', Fajr tm), (''Sunrise'', Sunrise tm), (''Dhuhr'', Dhuhr tm),
             (''Asr'', Asr tm), (''Maghrib'', Maghrib tm), (''Isha'', Isha tm)]
      in if friday then AList.update ''Jummah'' (lookup prayerTimes ''Dhuhr'') prayerTimes
         else prayerTimes)"

text \<open>The fallback table of \<^verbatim>\<open>useDefaultPrayerTimes\<close>, built the same way.\<close>

definition defaultTimings :: timings where
  "defaultTimings =
     \<lparr>Fajr = Str ''05:00'', Sunrise = Str ''06:15'', Dhuhr = Str ''12:15'',
      Asr = Str ''15:45'', Maghrib = Str ''18:00'', Isha = Str ''19:30''\<rparr>"

definition useDefaultPrayerTimes :: "bool \<Rightarrow> jsval obj" where
  "useDefaultPrayerTimes friday = fetchPrayerTimes defaultTimings friday"

text \<open>
  \<^verbatim>\<open>function getEndTime(prayer) {
    const prayers = Object.keys(prayerTimes);
    const index = prayers.indexOf(prayer === 'Jummah' ? 'Dhuhr' : prayer);
    if (prayer === 'Fajr') { return prayerTimes.Sunrise; }
    else if (index < prayers.length - 1) { return prayerTimes[prayers[index + 1]]; }
    else { // Isha ends at midnight
      return '23:59'; } }\<close>

  In the second branch \<open>index + 1\<close> lies between 0 and \<open>length prayers - 1\<close>, so the
  array read is in range.
\<close>

definition getEndTime :: "jsval obj \<Rightarrow> string \<Rightarrow> jsval" where
  "getEndTime prayerTimes prayer =
     (let prayers = keys prayerTimes;
          index = indexOf prayers (if prayer = ''Jummah'' then ''Dhuhr'' else prayer)
      in if prayer = ''Fajr'' then lookup prayerTimes ''Sunrise''
         else if index < int (length prayers) - 1
           then lookup prayerTimes (prayers ! nat (index + 1))
         else Str ''23:59'')"

text \<open>
  \<^verbatim>\<open>function isInForbiddenTime(currentTime) {
    const sunrise = addMinutes(prayerTimes.Fajr, 90);
    const sunriseEnd = prayerTimes.Sunrise;
    const zenith = subtractMinutes(prayerTimes.Dhuhr, 10);
    const zenithEnd = prayerTimes.Dhuhr;
    const sunset = subtractMinutes(prayerTimes.Maghrib, 15);
    const sunsetEnd = prayerTimes.Maghrib;
    return isTimeInRange(currentTime, sunrise, sunriseEnd) ||
        isTimeInRange(currentTime, zenith, zenithEnd) ||
        isTimeInRange(currentTime, sunset, sunsetEnd); }\<close>

  A TypeError of \<open>addMinutes\<close> leaves the function.
\<close>

definition isInForbiddenTime :: "jsval obj \<Rightarrow> jsval \<Rightarrow> error + bool" where
  "isInForbiddenTime prayerTimes currentTime =
     (case addMinutes (lookup prayerTimes ''Fajr'') 90 of
        Inl e \<Rightarrow> Inl e
      | Inr sunrise \<Rightarrow>
     (let sunriseEnd = lookup prayerTimes ''Sunrise'' in
      case subtractMinutes (lookup prayerTimes ''Dhuhr'') 10 of
        Inl e \<Rightarrow> Inl e
      | Inr zenith \<Rightarrow>
     (let zenithEnd = lookup prayerTimes ''Dhuhr'' in
      case subtractMinutes (lookup prayerTimes ''Maghrib'') 15 of
        Inl e \<Rightarrow> Inl e
      | Inr sunset \<Rightarrow>
     (let sunsetEnd = lookup prayerTimes ''Maghrib'' in
      Inr (isTimeInRange currentTime (Str sunrise) sunriseEnd \<or>
           isTimeInRange currentTime (Str zenith) zenithEnd \<or>
           isTimeInRange currentTime (Str sunset) sunsetEnd)))))"

section \<open>Well-formed times and the intervals of the specification\<close>

text \<open>
  A well-formed time is a zero-padded 24-hour \<^verbatim>\<open>"HH:MM"\<close>: two digits below 24, a
  colon, two digits below 60. Its minutes-of-day are \<open>60 * HH + MM\<close>.
\<close>

fun wellFormed :: "string \<Rightarrow> bool" where
  "wellFormed [a, b, c, d, e] =
     (is_digit a \<and> is_digit b \<and> c = CHR '':'' \<and> is_digit d \<and> is_digit e \<and>
      10 * digit_val a + digit_val b < 24 \<and> 10 * digit_val d + digit_val e < 60)"
| "wellFormed _ = False"

definition minutesOfDay :: "string \<Rightarrow> int" where
  "minutesOfDay s = int (60 * digits_val (take 2 s) + digits_val (drop 3 s))"

text \<open>The two-digit rendering of a number below 100, and a time built from hour and minute.\<close>

definition two :: "nat \<Rightarrow> string" where
  "two n = [digit_char (n div 10), digit_char (n mod 10)]"

definition hhmm :: "nat \<Rightarrow> nat \<Rightarrow> string" where
  "hhmm h m = two h @ '':'' @ two m"

text \<open>
  The specification's \<open>addMinutes\<close> on minutes-of-day: add the delta and wrap modulo 1440.
\<close>

definition addMinutes_spec :: "int \<Rightarrow> int \<Rightarrow> int" where
  "addMinutes_spec t d = (t + d) mod 1440"

text \<open>
  The specification's forbidden window, on minutes-of-day: the intervals
  \<open>[Fajr + 90, Sunrise)\<close>, \<open>[Dhuhr - 10, Dhuhr)\<close> and \<open>[Maghrib - 15, Maghrib]\<close>.
\<close>

definition isForbiddenWindow_spec :: "int \<Rightarrow> int \<Rightarrow> int \<Rightarrow> int \<Rightarrow> int \<Rightarrow> bool" where
  "isForbiddenWindow_spec fajr sunrise dhuhr maghrib now =
     ((addMinutes_spec fajr 90 \<le> now \<and> now < sunrise) \<or>
      (addMinutes_spec dhuhr (- 10) \<le> now \<and> now < dhuhr) \<or>
      (addMinutes_spec maghrib (- 15) \<le> now \<and> now \<le> maghrib))"

text \<open>The same three intervals, each closed at both ends.\<close>

definition isForbiddenWindow_closed :: "int \<Rightarrow> int \<Rightarrow> int \<Rightarrow> int \<Rightarrow> int \<Rightarrow> bool" where
  "isForbiddenWindow_closed fajr sunrise dhuhr maghrib now =
     ((addMinutes_spec fajr 90 \<le> now \<and> now \<le> sunrise) \<or>
      (addMinutes_spec dhuhr (- 10) \<le> now \<and> now \<le> dhuhr) \<or>
      (addMinutes_spec maghrib (- 15) \<le> now \<and> now \<le> maghrib))"

section \<open>Dates\<close>

text \<open>
  A \<^verbatim>\<open>Date\<close> is modelled by the local-time fields that its getters return. A time
  value is the number of milliseconds since the epoch in local time,
  \<open>day * msPerDay + time within the day\<close>; two dates are compared by their time values.
  The offset between local time and UTC is taken to be constant, so that comparing local
  time values is comparing the UTC ones. Every \<^verbatim>\<open>new Date()\<close> of one call of a
  function reads the same instant.
\<close>

record jsDate =
  getFullYear :: int
  getMonth :: int
  getDate :: int
  getHours :: int
  getMinutes :: int
  getSeconds :: int
  getMilliseconds :: int

definition msPerDay :: int where
  "msPerDay = 86400000"

text \<open>The day number of 1 January of year \<open>y\<close> (ECMAScript \<^verbatim>\<open>DayFromYear\<close>).\<close>

definition DayFromYear :: "int \<Rightarrow> int" where
  "DayFromYear y =
     365 * (y - 1970) + (y - 1969) div 4 - (y - 1901) div 100 + (y - 1601) div 400"

definition InLeapYear :: "int \<Rightarrow> bool" where
  "InLeapYear y = ((y mod 4 = 0 \<and> y mod 100 \<noteq> 0) \<or> y mod 400 = 0)"

text \<open>The number of days of the year before month \<open>m\<close> (0 is January).\<close>

definition monthStart :: "int \<Rightarrow> bool \<Rightarrow> int" where
  "monthStart m leap =
     (let l = (if leap then 1 else 0) in
      if m = 0 then 0 else if m = 1 then 31 else if m = 2 then 59 + l
      else if m = 3 then 90 + l else if m = 4 then 120 + l else if m = 5 then 151 + l
      else if m = 6 then 181 + l else if m = 7 then 212 + l else if m = 8 then 243 + l
      else if m = 9 then 273 + l else if m = 10 then 304 + l else 334 + l)"

text \<open>
  ECMAScript \<^verbatim>\<open>MakeDay(year, month, date)\<close> on integers: months beyond 0..11 carry
  into the year, and the day of the month is added as an offset, so day 0 or day 32 lands
  in a neighbouring month.
\<close>

definition MakeDay :: "int \<Rightarrow> int \<Rightarrow> int \<Rightarrow> int" where
  "MakeDay year month dt =
     (let ym = year + month div 12;
          mn = month mod 12
      in DayFromYear ym + monthStart mn (InLeapYear ym) + dt - 1)"

definition today :: "jsDate \<Rightarrow> int" where
  "today now = MakeDay (getFullYear now) (getMonth now) (getDate now)"

definition timeWithinDay :: "jsDate \<Rightarrow> int" where
  "timeWithinDay now =
     getHours now * 3600000 + getMinutes now * 60000 + getSeconds now * 1000
     + getMilliseconds now"

text \<open>The fields of a \<^verbatim>\<open>Date\<close> lie in these ranges.\<close>

definition validDate :: "jsDate \<Rightarrow> bool" where
  "validDate now =
     (0 \<le> getMonth now \<and> getMonth now \<le> 11 \<and> 1 \<le> getDate now \<and> getDate now \<le> 31 \<and>
      0 \<le> getHours now \<and> getHours now \<le> 23 \<and> 0 \<le> getMinutes now \<and> getMinutes now \<le> 59 \<and>
      0 \<le> getSeconds now \<and> getSeconds now \<le> 59 \<and>
      0 \<le> getMilliseconds now \<and> getMilliseconds now \<le> 999)"

text \<open>\<^verbatim>\<open>getDay()\<close>: the weekday, 0 for Sunday; day 0 of the epoch was a Thursday.\<close>

definition getDay :: "jsDate \<Rightarrow> int" where
  "getDay now = (today now + 4) mod 7"

definition isFriday :: "jsDate \<Rightarrow> bool" where
  "isFriday now = (getDay now = 5)"

text \<open>
  The value of \<^verbatim>\<open>new Date(year, month, day)\<close> from three numbers: the time value of
  local midnight of that day, or \<open>None\<close> for an Invalid Date (a NaN argument, or a time
  value beyond \<open>8.64e15\<close> milliseconds). A year from 0 to 99 means 1900 to 1999.
\<close>

fun newDate :: "jsnum \<Rightarrow> jsnum \<Rightarrow> jsnum \<Rightarrow> int option" where
  "newDate (Fin y) (Fin m) (Fin d) =
     (let yr = (if 0 \<le> y \<and> y \<le> 99 then 1900 + y else y);
          tv = MakeDay yr m d * msPerDay
      in if \<bar>tv\<bar> \<le> 8640000000000000 then Some tv else None)"
| "newDate _ _ _ = None"

text \<open>\<^verbatim>\<open>a < b\<close> on two dates, the right one valid: false when the left one is invalid.\<close>

fun date_lt :: "int option \<Rightarrow> int \<Rightarrow> bool" where
  "date_lt None b = False"
| "date_lt (Some a) b = (a < b)"

text \<open>
  \<^verbatim>\<open>function getTodayKey() {
    const today = new Date();
    return `${today.getDate()}-${today.getMonth() + 1}-${today.getFullYear()}`; }\<close>
\<close>

definition getTodayKey :: "jsDate \<Rightarrow> string" where
  "getTodayKey now =
     String (Fin (getDate now)) @ ''-'' @ String (Fin (getMonth now + 1)) @ ''-''
     @ String (Fin (getFullYear now))"

text \<open>
  The current time as the tracker builds it everywhere:
  \<^verbatim>\<open>`${String(now.getHours()).padStart(2, '0')}:${String(now.getMinutes()).padStart(2, '0')}`\<close>
\<close>

definition currentTimeOf :: "jsDate \<Rightarrow> string" where
  "currentTimeOf now =
     padStart2 (String (Fin (getHours now))) @ '':'' @ padStart2 (String (Fin (getMinutes now)))"

text \<open>The day's canonical list of prayers, as every function of the tracker writes it.\<close>

definition prayers :: "bool \<Rightarrow> string list" where
  "prayers friday =
     (if friday then [''Fajr'', ''Jummah'', ''Asr'', ''Maghrib'', ''Isha'']
      else [''Fajr'', ''Dhuhr'', ''Asr'', ''Maghrib'', ''Isha''])"

section \<open>The completion tracker\<close>

text \<open>
  \<^verbatim>\<open>completedPrayers\<close> maps a day key to an object from prayer names to \<^verbatim>\<open>true\<close>;
  \<^verbatim>\<open>missedPrayers\<close> maps a day key to an object from prayer names to
  \<^verbatim>\<open>{ date, time }\<close>. Both start empty.
\<close>

record missedEntry =
  date :: string
  time :: jsval

record tracker =
  missedPrayers :: "missedEntry obj obj"
  completedPrayers :: "bool obj obj"

definition initial :: tracker where
  "initial = \<lparr>missedPrayers = [], completedPrayers = []\<rparr>"

text \<open>\<^verbatim>\<open>m[k] && m[k][p]\<close>: the entry of \<open>p\<close> in the bucket of \<open>k\<close>, if both exist.\<close>

definition get2 :: "'v obj obj \<Rightarrow> string \<Rightarrow> string \<Rightarrow> 'v option" where
  "get2 m k p = (case map_of m k of None \<Rightarrow> None | Some b \<Rightarrow> map_of b p)"

text \<open>
  \<^verbatim>\<open>if (!m[k]) { m[k] = {}; }\<close> creates the bucket of \<open>k\<close> when it is absent; after it,
  \<^verbatim>\<open>m[k]\<close> is an object, read by \<open>bucketAt\<close>.
\<close>

definition ensureBucket :: "'v obj obj \<Rightarrow> string \<Rightarrow> 'v obj obj" where
  "ensureBucket m k = (if map_of m k = None then AList.update k [] m else m)"

definition bucketAt :: "'v obj obj \<Rightarrow> string \<Rightarrow> 'v obj" where
  "bucketAt m k = (case map_of m k of None \<Rightarrow> [] | Some b \<Rightarrow> b)"

text \<open>A completion mark is truthy: the only value the code stores is \<^verbatim>\<open>true\<close>.\<close>

definition isCompleted :: "tracker \<Rightarrow> string \<Rightarrow> string \<Rightarrow> bool" where
  "isCompleted s k p = (get2 (completedPrayers s) k p = Some True)"

text \<open>The scheduled time recorded for a prayer: Jummah is looked up as Dhuhr.\<close>

definition scheduledTime :: "jsval obj \<Rightarrow> string \<Rightarrow> jsval" where
  "scheduledTime prayerTimes prayer =
     lookup prayerTimes (if prayer = ''Jummah'' then ''Dhuhr'' else prayer)"

text \<open>
  \<^verbatim>\<open>function togglePrayer(prayer) {
    const todayKey = getTodayKey();
    const checkbox = document.getElementById(`check-${prayer}`);
    if (!completedPrayers[todayKey]) { completedPrayers[todayKey] = {}; }
    if (checkbox.checked) {
      completedPrayers[todayKey][prayer] = true;
      if (missedPrayers[todayKey] && missedPrayers[todayKey][prayer]) {
        delete missedPrayers[todayKey][prayer];
        if (Object.keys(missedPrayers[todayKey]).length === 0) {
          delete missedPrayers[todayKey]; } }
    } else {
      delete completedPrayers[todayKey][prayer];
      if (Object.keys(completedPrayers[todayKey]).length === 0) {
        delete completedPrayers[todayKey]; }
      const now = new Date();
      const currentTime = ...;
      const endTime = getEndTime(prayer);
      if (currentTime > endTime) {
        if (!missedPrayers[todayKey]) { missedPrayers[todayKey] = {}; }
        missedPrayers[todayKey][prayer] = {
          date: todayKey, time: prayerTimes[prayer === 'Jummah' ? 'Dhuhr' : prayer] }; } }
    ... }\<close>

  The state of the checkbox after the click is the argument \<open>checked\<close>; the calls that
  only redraw the page are left out.
\<close>

definition togglePrayer :: "jsDate \<Rightarrow> jsval obj \<Rightarrow> bool \<Rightarrow> string \<Rightarrow> tracker \<Rightarrow> tracker" where
  "togglePrayer now prayerTimes checked prayer s =
     (let todayKey = getTodayKey now;
          completed0 = ensureBucket (completedPrayers s) todayKey
      in if checked then
           (let completed1 =
                  AList.update todayKey
                    (AList.update prayer True (bucketAt completed0 todayKey)) completed0;
                missed1 =
                  (if get2 (missedPrayers s) todayKey prayer \<noteq> None then
                     (let bucket = AList.delete prayer (bucketAt (missedPrayers s) todayKey)
                      in if length (keys bucket) = 0
                         then AList.delete todayKey (missedPrayers s)
                         else AList.update todayKey bucket (missedPrayers s))
                   else missedPrayers s)
            in \<lparr>missedPrayers = missed1, completedPrayers = completed1\<rparr>)
         else
           (let bucket = AList.delete prayer (bucketAt completed0 todayKey);
                completed1 =
                  (if length (keys bucket) = 0 then AList.delete todayKey completed0
                   else AList.update todayKey bucket completed0);
                currentTime = currentTimeOf now;
                endTime = getEndTime prayerTimes prayer;
                missed1 =
                  (if js_gt (Str currentTime) endTime then
                     (let missed0 = ensureBucket (missedPrayers s) todayKey
                      in AList.update todayKey
                           (AList.update prayer
                              \<lparr>date = todayKey, time = scheduledTime prayerTimes prayer\<rparr>
                              (bucketAt missed0 todayKey))
                           missed0)
                   else missedPrayers s)
            in \<lparr>missedPrayers = missed1, completedPrayers = completed1\<rparr>))"

text \<open>
  The body of the loop of \<^verbatim>\<open>checkForMissedPrayers\<close>, for one prayer:
  \<^verbatim>\<open>const endTime = getEndTime(prayer);
  if (currentTime > endTime) {
    if (!completedPrayers[todayKey] || !completedPrayers[todayKey][prayer]) {
      if (!missedPrayers[todayKey]) { missedPrayers[todayKey] = {}; }
      if (!missedPrayers[todayKey][prayer]) {
        missedPrayers[todayKey][prayer] = {
          date: todayKey, time: prayerTimes[prayer === 'Jummah' ? 'Dhuhr' : prayer] };
        ... } } }\<close>
\<close>

definition checkPrayer :: "jsDate \<Rightarrow> jsval obj \<Rightarrow> tracker \<Rightarrow> string \<Rightarrow> tracker" where
  "checkPrayer now prayerTimes s prayer =
     (let currentTime = currentTimeOf now;
          todayKey = getTodayKey now;
          endTime = getEndTime prayerTimes prayer
      in if js_gt (Str currentTime) endTime then
           (if \<not> isCompleted s todayKey prayer then
              (let missed0 = ensureBucket (missedPrayers s) todayKey
               in if map_of (bucketAt missed0 todayKey) prayer = None then
                    s\<lparr>missedPrayers :=
                        AList.update todayKey
                          (AList.update prayer
                             \<lparr>date = todayKey, time = scheduledTime prayerTimes prayer\<rparr>
                             (bucketAt missed0 todayKey))
                          missed0\<rparr>
                  else s\<lparr>missedPrayers := missed0\<rparr>)
            else s)
         else s)"

text \<open>
  \<^verbatim>\<open>function checkForMissedPrayers() { ...
    const prayers = isFriday ? [...] : [...];
    prayers.forEach(prayer => { ... }); ... }\<close>
\<close>

definition checkForMissedPrayers :: "jsDate \<Rightarrow> jsval obj \<Rightarrow> tracker \<Rightarrow> tracker" where
  "checkForMissedPrayers now prayerTimes s =
     foldl (checkPrayer now prayerTimes) s (prayers (isFriday now))"

text \<open>
  \<^verbatim>\<open>function updateStats() { ...
    let completed = 0;
    if (completedPrayers[todayKey]) {
      prayers.forEach(prayer => {
        if (completedPrayers[todayKey][prayer]) { completed++; } }); }
    document.getElementById('completedCount').textContent = completed;
    document.getElementById('remainingCount').textContent = 5 - completed; }\<close>

  The result is the pair of the two numbers written to the page.
\<close>

definition updateStats :: "jsDate \<Rightarrow> tracker \<Rightarrow> int \<times> int" where
  "updateStats now s =
     (let todayKey = getTodayKey now;
          completed =
            (if map_of (completedPrayers s) todayKey \<noteq> None
             then foldl (\<lambda>n prayer. if isCompleted s todayKey prayer then n + 1 else n) 0
                    (prayers (isFriday now))
             else 0)
      in (completed, 5 - completed))"

text \<open>
  \<^verbatim>\<open>function cleanOldData() {
    const thirtyDaysAgo = new Date();
    thirtyDaysAgo.setDate(thirtyDaysAgo.getDate() - 30);
    Object.keys(missedPrayers).forEach(dateKey => {
      const [day, month, year] = dateKey.split('-');
      const date = new Date(year, month - 1, day);
      if (date < thirtyDaysAgo) { delete missedPrayers[dateKey]; } });
    Object.keys(completedPrayers).forEach(dateKey => { ... the same ... }); ... }\<close>

  \<^verbatim>\<open>setDate\<close> keeps the time within the day and moves the day by \<^verbatim>\<open>MakeDay\<close>.
\<close>

definition thirtyDaysAgo :: "jsDate \<Rightarrow> int" where
  "thirtyDaysAgo now =
     MakeDay (getFullYear now) (getMonth now) (getDate now - 30) * msPerDay
     + timeWithinDay now"

definition dateOfKey :: "string \<Rightarrow> int option" where
  "dateOfKey dateKey =
     (let parts = split CHR ''-'' dateKey;
          day = elem parts 0;
          month = elem parts 1;
          year = elem parts 2
      in newDate (ToNumber year) (js_add (ToNumber month) (Fin (- 1))) (ToNumber day))"

definition expired :: "jsDate \<Rightarrow> string \<Rightarrow> bool" where
  "expired now dateKey = date_lt (dateOfKey dateKey) (thirtyDaysAgo now)"

definition sweep :: "jsDate \<Rightarrow> 'v obj obj \<Rightarrow> 'v obj obj" where
  "sweep now m =
     foldl (\<lambda>acc dateKey. if expired now dateKey then AList.delete dateKey acc else acc)
       m (keys m)"

definition cleanOldData :: "jsDate \<Rightarrow> tracker \<Rightarrow> tracker" where
  "cleanOldData now s =
     \<lparr>missedPrayers = sweep now (missedPrayers s),
      completedPrayers = sweep now (completedPrayers s)\<rparr>"

section \<open>Runs of the tracker\<close>

text \<open>
  The tracker changes its records in three places: a click on a checkbox, the periodic
  check for missed prayers, and the clean-up at the daily reset. A state is reachable when
  a sequence of these, at any dates and with any tables, leads to it from the empty records.
\<close>

datatype event =
  Toggle jsDate "jsval obj" bool string
| Check jsDate "jsval obj"
| Clean jsDate

fun apply_event :: "tracker \<Rightarrow> event \<Rightarrow> tracker" where
  "apply_event s (Toggle now prayerTimes checked prayer) =
     togglePrayer now prayerTimes checked prayer s"
| "apply_event s (Check now prayerTimes) = checkForMissedPrayers now prayerTimes s"
| "apply_event s (Clean now) = cleanOldData now s"

inductive reachable :: "tracker \<Rightarrow> bool" where
  reachable_initial: "reachable initial"
| reachable_step: "reachable s \<Longrightarrow> reachable (apply_event s e)"



section \<open>Example inputs\<close>


definition monday_2005 :: jsDate where
  "monday_2005 =
     \<lparr>getFullYear = 2026, getMonth = 10, getDate = 2, getHours = 20, getMinutes = 5,
      getSeconds = 0, getMilliseconds = 0\<rparr>"

definition friday_1300 :: jsDate where
  "friday_1300 =
     \<lparr>getFullYear = 2026, getMonth = 10, getDate = 6, getHours = 13, getMinutes = 0,
      getSeconds = 0, getMilliseconds = 0\<rparr>"

text \<open>
  Records with a bucket of 2 October 2026 (31 days before 2 November), one of 4 October
  2026 (29 days before) and one whose key is no date.
\<close>

definition oldRecords :: tracker where
  "oldRecords =
     \<lparr>missedPrayers =
        [(''2-10-2026'', [(''Fajr'', \<lparr>date = ''2-10-2026'', time = Str ''05:00''\<rparr>)]),
         (''4-10-2026'', [(''Fajr'', \<lparr>date = ''4-10-2026'', time = Str ''05:00''\<rparr>)]),
         (''someday'', [(''Fajr'', \<lparr>date = ''someday'', time = Str ''05:00''\<rparr>)])],
      completedPrayers =
        [(''2-10-2026'', [(''Asr'', True)]),
         (''4-10-2026'', [(''Asr'', True)]),
         (''someday'', [(''Asr'', True)])]\<rparr>"

section \<open>Auxiliary facts\<close>

subsection \<open>Digits and two-digit fields\<close>

lemma lt10_cases: "(d::nat) < 10 \<Longrightarrow> d = 0 \<or> d = 1 \<or> d = 2 \<or> d = 3 \<or> d = 4 \<or> d = 5 \<or> d = 6 \<or> d = 7 \<or> d = 8 \<or> d = 9"
  by arith

lemma of_char_digit_char: "d < 10 \<Longrightarrow> (of_char (digit_char d) :: nat) = 48 + d"
  using lt10_cases [of d] by (auto simp: digit_char_def)

lemma is_digit_digit_char: "d < 10 \<Longrightarrow> is_digit (digit_char d)"
  by (simp add: is_digit_def of_char_digit_char)

lemma digit_val_digit_char: "d < 10 \<Longrightarrow> digit_val (digit_char d) = d"
  by (simp add: digit_val_def of_char_digit_char)

lemma digit_char_digit_val: "is_digit c \<Longrightarrow> digit_char (digit_val c) = c \<and> digit_val c < 10"
proof -
  assume a: "is_digit c"
  then have lt: "digit_val c < 10" by (auto simp: is_digit_def digit_val_def)
  have "(of_char (digit_char (digit_val c)) :: nat) = of_char c"
    using a lt by (simp add: of_char_digit_char) (simp add: is_digit_def digit_val_def)
  then have "digit_char (digit_val c) = c" by simp
  with lt show ?thesis by simp
qed

lemma digit_char_neq_colon: "d < 10 \<Longrightarrow> digit_char d \<noteq> CHR '':''"
  using lt10_cases [of d] by (auto simp: digit_char_def)

lemma digit_char_inj: "a < 10 \<Longrightarrow> b < 10 \<Longrightarrow> (digit_char a = digit_char b) = (a = b)"
  by (metis digit_val_digit_char)

lemma wellFormed_hhmm:
  assumes "wellFormed s"
  shows "\<exists>h m. h < 24 \<and> m < 60 \<and> s = hhmm h m \<and> minutesOfDay s = int (60 * h + m)"
proof -
  from assms obtain a b c d e where s: "s = [a, b, c, d, e]"
    by (cases s rule: wellFormed.cases) auto
  from assms s have da: "is_digit a" and db: "is_digit b" and c: "c = CHR '':''"
    and dd: "is_digit d" and de: "is_digit e"
    and h: "10 * digit_val a + digit_val b < 24" and m: "10 * digit_val d + digit_val e < 60"
    by simp_all
  let ?h = "10 * digit_val a + digit_val b"
  let ?m = "10 * digit_val d + digit_val e"
  note dc = digit_char_digit_val [OF da] digit_char_digit_val [OF db]
    digit_char_digit_val [OF dd] digit_char_digit_val [OF de]
  have "two ?h = [a, b]" using dc by (simp add: two_def)
  moreover have "two ?m = [d, e]" using dc by (simp add: two_def)
  ultimately have "s = hhmm ?h ?m" by (simp add: hhmm_def s c)
  moreover have "minutesOfDay s = int (60 * ?h + ?m)"
    by (simp add: minutesOfDay_def s digits_val_def)
  ultimately show ?thesis using h m by blast
qed

lemma hhmm_wellFormed:
  assumes "h < 24" "m < 60"
  shows "wellFormed (hhmm h m)" and "minutesOfDay (hhmm h m) = int (60 * h + m)"
proof -
  have d: "h div 10 < 10" "h mod 10 < 10" "m div 10 < 10" "m mod 10 < 10"
    using assms by auto
  show "wellFormed (hhmm h m)"
    using d assms by (simp add: hhmm_def two_def is_digit_digit_char digit_val_digit_char)
  show "minutesOfDay (hhmm h m) = int (60 * h + m)"
    using d by (simp add: hhmm_def two_def minutesOfDay_def digits_val_def digit_val_digit_char)
qed

lemma lex_digits:
  fixes qa ra qb rb :: nat
  assumes "ra < 10" "rb < 10"
  shows "(10 * qa + ra < 10 * qb + rb) = (qa < qb \<or> (qa = qb \<and> ra < rb))"
    and "(10 * qa + ra = 10 * qb + rb) = (qa = qb \<and> ra = rb)"
  using assms by arith+

lemma str_lt_two:
  assumes "a < 100" "b < 100"
  shows "str_lt (two a @ r) (two b @ r') = (a < b \<or> (a = b \<and> str_lt r r'))"
proof -
  have d: "a div 10 < 10" "a mod 10 < 10" "b div 10 < 10" "b mod 10 < 10"
    using assms by auto
  have a: "a = 10 * (a div 10) + a mod 10" and b: "b = 10 * (b div 10) + b mod 10"
    by simp_all
  have lt: "(a < b) = (a div 10 < b div 10 \<or> (a div 10 = b div 10 \<and> a mod 10 < b mod 10))"
    by (subst a, subst b, rule lex_digits) (use d in simp_all)
  have eq: "(a = b) = (a div 10 = b div 10 \<and> a mod 10 = b mod 10)"
    by (subst a, subst b, rule lex_digits) (use d in simp_all)
  have "str_lt (two a @ r) (two b @ r') =
        (a div 10 < b div 10 \<or> (a div 10 = b div 10 \<and>
          (a mod 10 < b mod 10 \<or> (a mod 10 = b mod 10 \<and> str_lt r r'))))"
    using d by (simp add: two_def of_char_digit_char digit_char_inj)
  then show ?thesis using lt eq by blast
qed

lemma str_lt_hhmm:
  assumes "h < 100" "m < 60" "h' < 100" "m' < 60"
  shows "str_lt (hhmm h m) (hhmm h' m') = (int (60 * h + m) < int (60 * h' + m'))"
proof -
  have "str_lt (two m) (two m') = (m < m')"
    using str_lt_two [of m m' "[]" "[]"] assms by simp
  then have "str_lt (hhmm h m) (hhmm h' m') = (h < h' \<or> (h = h' \<and> m < m'))"
    using assms by (simp add: hhmm_def str_lt_two)
  also have "\<dots> = (int (60 * h + m) < int (60 * h' + m'))"
    using assms by auto
  finally show ?thesis .
qed

lemma split_hhmm:
  assumes "h < 100" "m < 100"
  shows "split CHR '':'' (hhmm h m) = [two h, two m]"
proof -
  have "h div 10 < 10" "h mod 10 < 10" "m div 10 < 10" "m mod 10 < 10"
    using assms by auto
  then show ?thesis
    by (simp add: hhmm_def two_def digit_char_neq_colon)
qed

lemma Number_two:
  assumes "n < 100"
  shows "Number (two n) = Fin (int n)"
proof -
  have d: "n div 10 < 10" "n mod 10 < 10" using assms by auto
  have "all_digits (two n)"
    using d by (simp add: all_digits_def two_def is_digit_digit_char)
  moreover have "digits_val (two n) = n"
    using d by (simp add: digits_val_def two_def digit_val_digit_char)
  ultimately show ?thesis by (simp add: Number_def two_def)
qed

lemma trunc_rem_nonneg: "0 \<le> a \<Longrightarrow> 0 < b \<Longrightarrow> trunc_rem a b = a mod b"
  by (cases "a = 0") (simp_all add: trunc_rem_def)

lemma digits_of_small: "n < 10 \<Longrightarrow> digits_of n = [digit_char n]"
  by (subst digits_of.simps) simp

lemma digits_of_two: "10 \<le> n \<Longrightarrow> n < 100 \<Longrightarrow> digits_of n = [digit_char (n div 10), digit_char (n mod 10)]"
  by (subst digits_of.simps) (simp add: digits_of_small)

lemma padStart2_digits: "n < 100 \<Longrightarrow> padStart2 (digits_of n) = two n"
proof (cases "n < 10")
  case True
  moreover have "digit_char 0 = CHR ''0''" by (simp add: digit_char_def)
  ultimately show ?thesis
    by (simp add: digits_of_small padStart2_def two_def)
next
  case False
  assume "n < 100"
  with False show ?thesis
    by (simp add: digits_of_two padStart2_def two_def)
qed

lemma padStart2_String:
  assumes "0 \<le> n" "n < 100"
  shows "padStart2 (String (Fin n)) = two (nat n)"
  using assms by (simp add: padStart2_digits)

subsection \<open>Minute arithmetic and comparison on well-formed times\<close>

text \<open>
  When the total is not negative, \<open>addMinutes\<close> on a well-formed time returns the
  well-formed time of the total modulo 1440; and on well-formed times the lexicographic
  comparison is the comparison of minutes-of-day.
\<close>

lemma hm_mod_1440:
  fixes t :: int
  shows "60 * (t div 60 mod 24) + t mod 60 = t mod 1440"
  using zmod_zmult2_eq [of 24 t 60] by simp

lemma addMinutes_hhmm:
  assumes "h < 24" "m < 60" "0 \<le> int (60 * h + m) + k"
  shows "addMinutes (Str (hhmm h m)) k =
         Inr (hhmm (nat ((int (60 * h + m) + k) div 60 mod 24))
                   (nat ((int (60 * h + m) + k) mod 60)))"
proof -
  define t where "t = int (60 * h + m) + k"
  have t0: "0 \<le> t" using assms(3) by (simp add: t_def)
  have tot: "js_add (js_add (js_mul (Fin (int h)) (Fin 60)) (Fin (int m))) (Fin k) = Fin t"
    by (simp add: t_def)
  have q: "0 \<le> t div 60" using t0 by (simp add: pos_imp_zdiv_nonneg_iff)
  have rh: "js_rem (floor_div (Fin t) 60) 24 = Fin (t div 60 mod 24)"
    using q by (simp add: trunc_rem_nonneg)
  have rm: "js_rem (Fin t) 60 = Fin (t mod 60)"
    using t0 by (simp add: trunc_rem_nonneg)
  have ph: "padStart2 (String (Fin (t div 60 mod 24))) = two (nat (t div 60 mod 24))"
    by (rule padStart2_String) simp_all
  have pm: "padStart2 (String (Fin (t mod 60))) = two (nat (t mod 60))"
    by (rule padStart2_String) simp_all
  have parts: "split CHR '':'' (hhmm h m) = [two h, two m]"
    using assms(1,2) by (simp add: split_hhmm)
  have nh: "ToNumber (elem [two h, two m] 0) = Fin (int h)"
    using assms(1) by (simp add: elem_def Number_two)
  have nm: "ToNumber (elem [two h, two m] 1) = Fin (int m)"
    using assms(2) by (simp add: elem_def Number_two)
  have "addMinutes (Str (hhmm h m)) k =
        Inr (two (nat (t div 60 mod 24)) @ '':'' @ two (nat (t mod 60)))"
    unfolding addMinutes.simps parts Let_def nh nm tot rh rm ph pm ..
  then show ?thesis by (simp add: hhmm_def t_def)
qed

lemma addMinutes_wellFormed:
  assumes "wellFormed s" "0 \<le> minutesOfDay s + k"
  shows "\<exists>r. addMinutes (Str s) k = Inr r \<and> wellFormed r \<and>
             minutesOfDay r = addMinutes_spec (minutesOfDay s) k"
proof -
  from wellFormed_hhmm [OF assms(1)] obtain h m where
    hm: "h < 24" "m < 60" "s = hhmm h m" "minutesOfDay s = int (60 * h + m)" by blast
  define t where "t = int (60 * h + m) + k"
  have t0: "0 \<le> t" using assms(2) hm(4) by (simp add: t_def)
  define H where "H = nat (t div 60 mod 24)"
  define M where "M = nat (t mod 60)"
  have H: "H < 24" "int H = t div 60 mod 24" by (simp_all add: H_def)
  have M: "M < 60" "int M = t mod 60" by (simp_all add: M_def)
  have r: "addMinutes (Str s) k = Inr (hhmm H M)"
    using addMinutes_hhmm [of h m k] hm t0 by (simp add: t_def H_def M_def)
  have "minutesOfDay (hhmm H M) = t mod 1440"
    using hhmm_wellFormed(2) [OF H(1) M(1)] H(2) M(2) hm_mod_1440 [of t] by simp
  then have "minutesOfDay (hhmm H M) = addMinutes_spec (minutesOfDay s) k"
    by (simp add: addMinutes_spec_def hm(4) t_def)
  with r hhmm_wellFormed(1) [OF H(1) M(1)] show ?thesis by blast
qed

lemma js_le_wellFormed:
  assumes "wellFormed a" "wellFormed b"
  shows "js_le (Str a) (Str b) = (minutesOfDay a \<le> minutesOfDay b)"
proof -
  from wellFormed_hhmm [OF assms(1)] obtain h m where
    a: "h < 24" "m < 60" "a = hhmm h m" "minutesOfDay a = int (60 * h + m)" by blast
  from wellFormed_hhmm [OF assms(2)] obtain h' m' where
    b: "h' < 24" "m' < 60" "b = hhmm h' m'" "minutesOfDay b = int (60 * h' + m')" by blast
  have "str_lt (hhmm h' m') (hhmm h m) = (int (60 * h' + m') < int (60 * h + m))"
    using a(1,2) b(1,2) by (intro str_lt_hhmm) simp_all
  moreover have "(minutesOfDay b < minutesOfDay a) = (int (60 * h' + m') < int (60 * h + m))"
    by (simp only: a(4) b(4))
  ultimately have "str_lt b a = (minutesOfDay b < minutesOfDay a)"
    by (simp only: a(3) b(3))
  then show ?thesis by auto
qed

lemma isTimeInRange_wellFormed:
  assumes "wellFormed c" "wellFormed s" "wellFormed e"
  shows "isTimeInRange (Str c) (Str s) (Str e) =
         (minutesOfDay s \<le> minutesOfDay c \<and> minutesOfDay c \<le> minutesOfDay e)"
  using js_le_wellFormed [OF assms(2,1)] js_le_wellFormed [OF assms(1,3)]
  by (simp only: isTimeInRange_def js_ge_def)

subsection \<open>End times on the tables of the schedule provider\<close>

lemma getEndTime_fetchPrayerTimes:
  "getEndTime (fetchPrayerTimes tm friday) ''Fajr'' = Sunrise tm"
  "getEndTime (fetchPrayerTimes tm friday) ''Dhuhr'' = Asr tm"
  "getEndTime (fetchPrayerTimes tm friday) ''Jummah'' = Asr tm"
  "getEndTime (fetchPrayerTimes tm friday) ''Asr'' = Maghrib tm"
  "getEndTime (fetchPrayerTimes tm friday) ''Maghrib'' = Isha tm"
  "getEndTime (fetchPrayerTimes tm friday) ''Isha'' = (if friday then Dhuhr tm else Str ''23:59'')"
  by (cases friday; simp add: getEndTime_def fetchPrayerTimes_def keys_def lookup_def Let_def)+

subsection \<open>Reading the records after an update\<close>

lemma get2_update:
  "get2 (AList.update k b m) k' p = (if k' = k then map_of b p else get2 m k' p)"
  by (simp add: get2_def update_conv')

lemma get2_delete:
  "get2 (AList.delete k m) k' p = (if k' = k then None else get2 m k' p)"
  by (simp add: get2_def delete_conv')

lemma get2_ensureBucket: "get2 (ensureBucket m k) k' p = get2 m k' p"
  by (simp add: ensureBucket_def get2_update) (simp add: get2_def)

lemma map_of_bucketAt: "map_of (bucketAt m k) p = get2 m k p"
  by (simp add: bucketAt_def get2_def split: option.splits)

lemma bucketAt_ensureBucket: "bucketAt (ensureBucket m k) k = bucketAt m k"
  by (simp add: ensureBucket_def bucketAt_def update_conv')


lemma keys_empty: "(keys b = []) = (b = [])"
  by (simp add: keys_def)

lemma delete_Nil_other: "AList.delete p b = [] \<Longrightarrow> q \<noteq> p \<Longrightarrow> map_of b q = None"
  using map_of_delete [of q p b] by simp

lemma map_of_delete_if: "map_of (AList.delete p b) q = (if q = p then None else map_of b q)"
  by (simp add: delete_conv')

lemma map_of_update_if: "map_of (AList.update p v b) q = (if q = p then Some v else map_of b q)"
  by (simp add: update_conv')

lemma delete_filter: "AList.delete k m = filter (\<lambda>p. fst p \<noteq> k) m"
  by (induction m) auto

lemma delete_all_others:
  assumes "\<And>q. q \<noteq> p \<Longrightarrow> map_of b q = None"
  shows "AList.delete p b = []"
proof (rule ccontr)
  assume "AList.delete p b \<noteq> []"
  then obtain q v where qv: "(q, v) \<in> set (AList.delete p b)"
    by (cases "AList.delete p b") auto
  then have "q \<noteq> p" and "(q, v) \<in> set b" by (auto simp: delete_filter)
  then have "map_of b q \<noteq> None"
    by (metis map_of_eq_None_iff fst_conv image_eqI)
  with assms [OF \<open>q \<noteq> p\<close>] show False by simp
qed

subsection \<open>The effect of a click\<close>

lemma toggle_completed:
  "get2 (completedPrayers (togglePrayer now pt c p s)) k q =
     (if k = getTodayKey now \<and> q = p then (if c then Some True else None)
      else get2 (completedPrayers s) k q)"
proof (cases c)
  case True
  then show ?thesis
    by (simp add: togglePrayer_def Let_def get2_update map_of_update_if map_of_bucketAt
        get2_ensureBucket)
next
  case False
  let ?b = "AList.delete p (bucketAt (ensureBucket (completedPrayers s) (getTodayKey now)) (getTodayKey now))"
  show ?thesis
  proof (cases "?b = []")
    case True
    have "q \<noteq> p \<Longrightarrow> get2 (completedPrayers s) (getTodayKey now) q = None"
      using delete_Nil_other [OF True] by (simp add: map_of_bucketAt get2_ensureBucket)
    then show ?thesis using True \<open>\<not> c\<close>
      by (auto simp: togglePrayer_def Let_def keys_empty get2_delete get2_ensureBucket)
  next
    case False
    then show ?thesis using \<open>\<not> c\<close>
      by (simp add: togglePrayer_def Let_def keys_empty get2_update map_of_delete_if
          map_of_bucketAt get2_ensureBucket)
  qed
qed

lemma toggle_missed:
  "get2 (missedPrayers (togglePrayer now pt c p s)) k q =
     (if k = getTodayKey now \<and> q = p then
        (if c then None
         else if js_gt (Str (currentTimeOf now)) (getEndTime pt p)
           then Some \<lparr>date = getTodayKey now, time = scheduledTime pt p\<rparr>
         else get2 (missedPrayers s) k q)
      else get2 (missedPrayers s) k q)"
proof (cases c)
  case False
  then show ?thesis
    by (simp add: togglePrayer_def Let_def get2_update map_of_update_if map_of_bucketAt
        get2_ensureBucket)
next
  case True
  let ?b = "AList.delete p (bucketAt (missedPrayers s) (getTodayKey now))"
  show ?thesis
  proof (cases "get2 (missedPrayers s) (getTodayKey now) p = None")
    case True
    then show ?thesis using \<open>c\<close> by (auto simp: togglePrayer_def Let_def)
  next
    case present: False
    show ?thesis
    proof (cases "?b = []")
      case True
      have "q \<noteq> p \<Longrightarrow> get2 (missedPrayers s) (getTodayKey now) q = None"
        using delete_Nil_other [OF True] by (simp add: map_of_bucketAt)
      then show ?thesis using True present \<open>c\<close>
        by (auto simp: togglePrayer_def Let_def keys_empty get2_delete)
    next
      case False
      then show ?thesis using present \<open>c\<close>
        by (simp add: togglePrayer_def Let_def keys_empty get2_update map_of_delete_if
            map_of_bucketAt)
    qed
  qed
qed

lemma toggle_checked_drops_bucket:
  assumes "get2 (missedPrayers s) (getTodayKey now) p \<noteq> None"
    and "\<And>q. q \<noteq> p \<Longrightarrow> get2 (missedPrayers s) (getTodayKey now) q = None"
  shows "map_of (missedPrayers (togglePrayer now pt True p s)) (getTodayKey now) = None"
proof -
  have "AList.delete p (bucketAt (missedPrayers s) (getTodayKey now)) = []"
    by (rule delete_all_others) (simp add: map_of_bucketAt assms(2))
  then show ?thesis using assms(1)
    by (simp add: togglePrayer_def Let_def keys_empty delete_conv')
qed

subsection \<open>The effect of the check for missed prayers\<close>

lemma checkPrayer_completed: "completedPrayers (checkPrayer now pt s p) = completedPrayers s"
  by (simp add: checkPrayer_def Let_def)

lemma checkPrayer_missed:
  "get2 (missedPrayers (checkPrayer now pt s p)) k q =
     (if k = getTodayKey now \<and> q = p \<and> js_gt (Str (currentTimeOf now)) (getEndTime pt p)
         \<and> \<not> isCompleted s (getTodayKey now) p
         \<and> get2 (missedPrayers s) (getTodayKey now) p = None
      then Some \<lparr>date = getTodayKey now, time = scheduledTime pt p\<rparr>
      else get2 (missedPrayers s) k q)"
  by (simp add: checkPrayer_def Let_def get2_update map_of_update_if map_of_bucketAt
      get2_ensureBucket bucketAt_ensureBucket)


lemma isCompleted_checkPrayer: "isCompleted (checkPrayer now pt s p) k q = isCompleted s k q"
  by (simp add: isCompleted_def checkPrayer_completed)

lemma check_fold_completed:
  "completedPrayers (foldl (checkPrayer now pt) s ps) = completedPrayers s"
  by (induction ps arbitrary: s) (simp_all add: checkPrayer_completed)

lemma check_fold_missed:
  "get2 (missedPrayers (foldl (checkPrayer now pt) s ps)) k q =
     (if k = getTodayKey now \<and> q \<in> set ps
         \<and> js_gt (Str (currentTimeOf now)) (getEndTime pt q)
         \<and> \<not> isCompleted s (getTodayKey now) q
         \<and> get2 (missedPrayers s) (getTodayKey now) q = None
      then Some \<lparr>date = getTodayKey now, time = scheduledTime pt q\<rparr>
      else get2 (missedPrayers s) k q)"
proof (induction ps arbitrary: s)
  case Nil
  show ?case by simp
next
  case (Cons p ps)
  show ?case
    by (auto simp: Cons.IH [of "checkPrayer now pt s p"] isCompleted_checkPrayer
        checkPrayer_missed)
qed




subsection \<open>The effect of the clean-up\<close>

lemma sweep_fold:
  "foldl (\<lambda>acc k. if E k then AList.delete k acc else acc) acc ks
   = filter (\<lambda>p. \<not> (fst p \<in> set ks \<and> E (fst p))) acc"
proof (induction ks arbitrary: acc)
  case Nil
  show ?case by simp
next
  case (Cons k ks)
  show ?case
  proof (cases "E k")
    case True
    have "filter (\<lambda>p. \<not> (fst p \<in> set ks \<and> E (fst p))) (filter (\<lambda>p. fst p \<noteq> k) acc)
          = filter (\<lambda>p. \<not> (fst p \<in> set (k # ks) \<and> E (fst p))) acc"
      using True by (auto intro: filter_cong)
    with True show ?thesis by (simp add: Cons.IH delete_filter)
  next
    case False
    have "filter (\<lambda>p. \<not> (fst p \<in> set ks \<and> E (fst p))) acc
          = filter (\<lambda>p. \<not> (fst p \<in> set (k # ks) \<and> E (fst p))) acc"
      using False by (auto intro: filter_cong)
    with False show ?thesis by (simp add: Cons.IH)
  qed
qed

lemma sweep_filter: "sweep now m = filter (\<lambda>p. \<not> expired now (fst p)) m"
  unfolding sweep_def sweep_fold keys_def by (rule filter_cong) auto

lemma map_of_filter_key:
  "map_of (filter (\<lambda>p. \<not> E (fst p)) m) k = (if E k then None else map_of m k)"
  by (induction m) auto

lemma map_of_sweep: "map_of (sweep now m) k = (if expired now k then None else map_of m k)"
  by (simp add: sweep_filter map_of_filter_key)

lemma get2_sweep: "get2 (sweep now m) k p = (if expired now k then None else get2 m k p)"
  by (simp add: get2_def map_of_sweep)

lemma timeWithinDay_range:
  assumes "validDate now"
  shows "0 \<le> timeWithinDay now" and "timeWithinDay now < msPerDay"
  using assms by (simp_all add: validDate_def timeWithinDay_def msPerDay_def)

lemma thirtyDaysAgo_eq: "thirtyDaysAgo now = (today now - 30) * msPerDay + timeWithinDay now"
  by (simp add: thirtyDaysAgo_def today_def MakeDay_def Let_def algebra_simps)

lemma expired_31:
  assumes "validDate now" "dateOfKey k = Some ((today now - 31) * msPerDay)"
  shows "expired now k"
  using timeWithinDay_range [OF assms(1)] assms(2)
  by (simp add: expired_def thirtyDaysAgo_eq msPerDay_def algebra_simps)

lemma not_expired_29:
  assumes "validDate now" "dateOfKey k = Some ((today now - 29) * msPerDay)"
  shows "\<not> expired now k"
  using timeWithinDay_range [OF assms(1)] assms(2)
  by (simp add: expired_def thirtyDaysAgo_eq msPerDay_def algebra_simps)


subsection \<open>Counting and reachable states\<close>

lemma count_fold:
  "foldl (\<lambda>n x. if P x then n + 1 else n) (a::int) xs = a + int (length (filter P xs))"
  by (induction xs arbitrary: a) simp_all

lemma updateStats_count:
  "fst (updateStats now s)
   = int (length (filter (isCompleted s (getTodayKey now)) (prayers (isFriday now))))"
proof (cases "map_of (completedPrayers s) (getTodayKey now)")
  case None
  then have "\<And>p. \<not> isCompleted s (getTodayKey now) p"
    by (simp add: isCompleted_def get2_def)
  with None show ?thesis by (simp add: updateStats_def Let_def)
next
  case (Some b)
  then show ?thesis by (simp add: updateStats_def Let_def count_fold)
qed

lemma reachable_marks:
  assumes "reachable s"
  shows "(\<forall>k p. get2 (completedPrayers s) k p = None \<or> get2 (completedPrayers s) k p = Some True)
       \<and> (\<forall>k p. get2 (completedPrayers s) k p = None \<or> get2 (missedPrayers s) k p = None)"
  using assms
proof (induction rule: reachable.induct)
  case reachable_initial
  show ?case by (simp add: initial_def get2_def)
next
  case (reachable_step s e)
  from reachable_step.IH
  have t: "get2 (completedPrayers s) k p = None \<or> get2 (completedPrayers s) k p = Some True"
    for k p by simp
  from reachable_step.IH
  have d: "get2 (completedPrayers s) k p = None \<or> get2 (missedPrayers s) k p = None"
    for k p by simp
  show ?case
  proof (cases e)
    case (Toggle now pt c p)
    show ?thesis
      unfolding Toggle apply_event.simps
      using t d by (simp add: toggle_completed toggle_missed)
  next
    case (Check now pt)
    have c: "\<And>k p. \<not> isCompleted s k p \<Longrightarrow> get2 (completedPrayers s) k p = None"
      using t by (auto simp: isCompleted_def)
    show ?thesis
      unfolding Check apply_event.simps checkForMissedPrayers_def
      using t d c by (simp add: check_fold_completed check_fold_missed)
  next
    case (Clean now)
    show ?thesis
      unfolding Clean apply_event.simps
      using t d by (simp add: cleanOldData_def get2_sweep)
  qed
qed

section \<open>The claims\<close>

text \<open>
  C1. The claim: for every well-formed time and every integer delta, \<open>addMinutes\<close> wraps
  modulo 1440 and re-formats zero-padded, so that \<^verbatim>\<open>subtractMinutes("00:10", 20)\<close> is
  \<^verbatim>\<open>"23:50"\<close> and subtracting after adding gives the time back. The code wraps with
  \<^verbatim>\<open>%\<close>, which keeps the sign of a negative total: at \<^verbatim>\<open>subtractMinutes("00:10", 20)\<close>
  the total is \<open>-10\<close>, the hour is \<^verbatim>\<open>Math.floor(-10 / 60) % 24 = -1\<close>, the minute is
  \<^verbatim>\<open>-10 % 60 = -10\<close>, and the result is \<^verbatim>\<open>"-1:-10"\<close>. So the round trip from
  \<^verbatim>\<open>"23:50"\<close> with delta 20 does not come back to \<^verbatim>\<open>"23:50"\<close>.
\<close>

theorem subtractMinutes_negative_total:
  "addMinutes (Str ''23:50'') 20 = Inr ''00:10''
   \<and> subtractMinutes (Str ''00:10'') 20 = Inr ''-1:-10''
   \<and> subtractMinutes (Str ''00:10'') 20 \<noteq> Inr ''23:50''"
  by code_simp

text \<open>
  C2. The claim: on every table of the schedule provider, the Friday table included,
  \<open>getEndTime\<close> of Isha is the sentinel \<^verbatim>\<open>"23:59"\<close>. On a Friday the table has the key
  \<^verbatim>\<open>Jummah\<close> after \<^verbatim>\<open>Isha\<close>, so Isha is not the last key, and the code returns the
  value of the next key, which is the time of Dhuhr: \<^verbatim>\<open>"12:15"\<close> on the Friday
  fallback table. The comment in the code says that Isha ends at midnight. The other
  end times of the claim hold on every table (\<open>getEndTime_fetchPrayerTimes\<close>).
\<close>

theorem getEndTime_Isha_on_Friday:
  "getEndTime (useDefaultPrayerTimes True) ''Isha'' = Str ''12:15''
   \<and> getEndTime (useDefaultPrayerTimes True) ''Isha'' \<noteq> Str ''23:59''
   \<and> getEndTime (useDefaultPrayerTimes False) ''Isha'' = Str ''23:59''"
  by code_simp

text \<open>
  C3, as amended. For every table whose Fajr, Sunrise, Dhuhr and Maghrib are well-formed
  times, with Dhuhr at 00:10 or later and Maghrib at 00:15 or later, and every well-formed
  time \<open>now\<close>: \<open>isInForbiddenTime\<close> is true exactly when \<open>now\<close> lies in one of the three
  intervals \<open>[Fajr + 90, Sunrise]\<close>, \<open>[Dhuhr - 10, Dhuhr]\<close>, \<open>[Maghrib - 15, Maghrib]\<close>, each
  closed at both ends, on minutes-of-day with \<open>Fajr + 90\<close> taken modulo 1440.
\<close>

theorem isInForbiddenTime_closed_intervals:
  assumes "lookup prayerTimes ''Fajr'' = Str fajr" and "wellFormed fajr"
    and "lookup prayerTimes ''Sunrise'' = Str sunrise" and "wellFormed sunrise"
    and "lookup prayerTimes ''Dhuhr'' = Str dhuhr" and "wellFormed dhuhr"
    and "lookup prayerTimes ''Maghrib'' = Str maghrib" and "wellFormed maghrib"
    and "wellFormed now"
    and "10 \<le> minutesOfDay dhuhr" and "15 \<le> minutesOfDay maghrib"
  shows "isInForbiddenTime prayerTimes (Str now) =
         Inr (isForbiddenWindow_closed (minutesOfDay fajr) (minutesOfDay sunrise)
                (minutesOfDay dhuhr) (minutesOfDay maghrib) (minutesOfDay now))"
proof -
  have "0 \<le> minutesOfDay fajr" by (simp add: minutesOfDay_def)
  then have "0 \<le> minutesOfDay fajr + 90" by simp
  from addMinutes_wellFormed [OF assms(2) this] obtain a where
    a: "addMinutes (Str fajr) 90 = Inr a" "wellFormed a"
       "minutesOfDay a = addMinutes_spec (minutesOfDay fajr) 90" by blast
  have "0 \<le> minutesOfDay dhuhr + (- 10)" using assms(10) by simp
  from addMinutes_wellFormed [OF assms(6) this] obtain b where
    b: "subtractMinutes (Str dhuhr) 10 = Inr b" "wellFormed b"
       "minutesOfDay b = addMinutes_spec (minutesOfDay dhuhr) (- 10)"
    unfolding subtractMinutes_def by blast
  have "0 \<le> minutesOfDay maghrib + (- 15)" using assms(11) by simp
  from addMinutes_wellFormed [OF assms(8) this] obtain c where
    c: "subtractMinutes (Str maghrib) 15 = Inr c" "wellFormed c"
       "minutesOfDay c = addMinutes_spec (minutesOfDay maghrib) (- 15)"
    unfolding subtractMinutes_def by blast
  show ?thesis
    unfolding isInForbiddenTime_def assms(1,3,5,7) a(1) b(1) c(1)
    using assms(2,4,6,8,9) a(2,3) b(2,3) c(2,3)
    by (simp add: isTimeInRange_wellFormed isForbiddenWindow_closed_def)
qed

theorem isInForbiddenTime_closed_intervals_witness:
  "wellFormed ''12:10'' \<and> 10 \<le> minutesOfDay ''12:15'' \<and> 15 \<le> minutesOfDay ''18:00''
   \<and> isInForbiddenTime (useDefaultPrayerTimes False) (Str ''12:10'') = Inr True"
  using isInForbiddenTime_closed_intervals
    [of "useDefaultPrayerTimes False" "''05:00''" "''06:15''" "''12:15''" "''18:00''" "''12:10''"]
  by (simp add: useDefaultPrayerTimes_def fetchPrayerTimes_def defaultTimings_def lookup_def
      is_digit_def digit_val_def minutesOfDay_def digits_val_def isForbiddenWindow_closed_def
      addMinutes_spec_def)

text \<open>
  C3 as stated has the first two intervals open at their right ends. On the fallback
  table, at \<open>now\<close> equal to Dhuhr (12:15), the code answers true and the intervals of the
  claim do not contain 12:15.
\<close>

theorem isInForbiddenTime_right_end_counterexample:
  "isInForbiddenTime (useDefaultPrayerTimes False) (Str ''12:15'') = Inr True
   \<and> \<not> isForbiddenWindow_spec (minutesOfDay ''05:00'') (minutesOfDay ''06:15'')
         (minutesOfDay ''12:15'') (minutesOfDay ''18:00'') (minutesOfDay ''12:15'')"
  by code_simp





text \<open>
  C6. For a bucket of either record: when its key parses to the day 31 days before today,
  \<open>cleanOldData\<close> removes it, and when its key parses to the day 29 days before today,
  \<open>cleanOldData\<close> keeps it unchanged; the rule is the same for the missed and the
  completed record.
\<close>

theorem cleanOldData_cutoff:
  assumes "validDate now"
  shows "(dateOfKey k = Some ((today now - 31) * msPerDay) \<longrightarrow>
            map_of (missedPrayers (cleanOldData now s)) k = None \<and>
            map_of (completedPrayers (cleanOldData now s)) k = None)
       \<and> (dateOfKey k = Some ((today now - 29) * msPerDay) \<longrightarrow>
            map_of (missedPrayers (cleanOldData now s)) k = map_of (missedPrayers s) k \<and>
            map_of (completedPrayers (cleanOldData now s)) k = map_of (completedPrayers s) k)"
  using expired_31 [OF assms, of k] not_expired_29 [OF assms, of k]
  by (simp add: cleanOldData_def map_of_sweep)

theorem cleanOldData_cutoff_witness:
  "validDate monday_2005
   \<and> dateOfKey ''2-10-2026'' = Some ((today monday_2005 - 31) * msPerDay)
   \<and> dateOfKey ''4-10-2026'' = Some ((today monday_2005 - 29) * msPerDay)
   \<and> map_of (missedPrayers (cleanOldData monday_2005 oldRecords)) ''2-10-2026'' = None
   \<and> map_of (completedPrayers (cleanOldData monday_2005 oldRecords)) ''2-10-2026'' = None
   \<and> map_of (missedPrayers (cleanOldData monday_2005 oldRecords)) ''4-10-2026''
        = Some [(''Fajr'', \<lparr>date = ''4-10-2026'', time = Str ''05:00''\<rparr>)]
   \<and> map_of (completedPrayers (cleanOldData monday_2005 oldRecords)) ''4-10-2026''
        = Some [(''Asr'', True)]"
proof -
  have v: "validDate monday_2005" by code_simp
  have a: "dateOfKey ''2-10-2026'' = Some ((today monday_2005 - 31) * msPerDay)" by code_simp
  have b: "dateOfKey ''4-10-2026'' = Some ((today monday_2005 - 29) * msPerDay)" by code_simp
  have m: "map_of (missedPrayers oldRecords) ''4-10-2026''
        = Some [(''Fajr'', \<lparr>date = ''4-10-2026'', time = Str ''05:00''\<rparr>)]"
    "map_of (completedPrayers oldRecords) ''4-10-2026'' = Some [(''Asr'', True)]"
    by (simp_all add: oldRecords_def)
  show ?thesis
    using cleanOldData_cutoff [OF v, of "''2-10-2026''" oldRecords]
      cleanOldData_cutoff [OF v, of "''4-10-2026''" oldRecords] v a b m
    by simp
qed



text \<open>
  C8, as amended. The time operations do not validate their operands. Range containment
  never fails: on three strings, well-formed or not, it is the lexicographic comparison
  \<open>start \<le> current \<le> end\<close>, and it is false when an operand is missing. Minute arithmetic
  fails, with a TypeError, exactly when its time operand is missing; on every string,
  well-formed or not, it returns a string.
\<close>

theorem time_operations_do_not_validate:
  "isTimeInRange (Str c) (Str a) (Str b) = (\<not> str_lt c a \<and> \<not> str_lt b c)
   \<and> \<not> isTimeInRange Undefined x y
   \<and> \<not> isTimeInRange x Undefined y
   \<and> \<not> isTimeInRange x y Undefined
   \<and> (addMinutes t d = Inl TypeError) = (t = Undefined)
   \<and> (\<exists>r. addMinutes (Str s) d = Inr r)"
proof -
  have "\<not> js_le x Undefined" for x by (cases x) simp_all
  moreover have "(addMinutes t d = Inl TypeError) = (t = Undefined)"
    by (cases t) (simp_all add: Let_def)
  ultimately show ?thesis
    by (simp add: isTimeInRange_def js_ge_def Let_def)
qed

theorem time_operations_do_not_validate_witness:
  "isTimeInRange (Str ''13:05'') (Str ''12:15'') (Str ''15:45'')
   \<and> addMinutes Undefined 90 = Inl TypeError
   \<and> addMinutes (Str ''12:15'') (- 10) = Inr ''12:05''"
proof -
  have "addMinutes (Str ''12:15'') (- 10) = Inr ''12:05''" by code_simp
  moreover have "\<not> str_lt ''13:05'' ''12:15''" "\<not> str_lt ''15:45'' ''13:05''" by code_simp+
  ultimately show ?thesis
    using time_operations_do_not_validate
      [of "''13:05''" "''12:15''" "''15:45''" Undefined Undefined Undefined 90 "''12:15''"]
    by simp
qed

text \<open>
  C8 as stated says that an operand that is not a well-formed time makes the operation
  fail. The strings \<^verbatim>\<open>"7:5"\<close> and \<^verbatim>\<open>"1234"\<close> are not well-formed, and the code
  returns \<^verbatim>\<open>"07:05"\<close>, a comparison result, and \<^verbatim>\<open>"NaN:NaN"\<close>.
\<close>

theorem malformed_time_counterexample:
  "\<not> wellFormed ''7:5''
   \<and> addMinutes (Str ''7:5'') 0 = Inr ''07:05''
   \<and> isTimeInRange (Str ''7:5'') (Str ''06:00'') (Str ''9'')
   \<and> \<not> wellFormed ''1234''
   \<and> addMinutes (Str ''1234'') 5 = Inr ''NaN:NaN''"
  by code_simp

text \<open>
  C9. The Friday list is the usual list with Jummah in the place of Dhuhr, the list always
  has five prayers, and for every state of the records \<open>updateStats\<close> counts the completed
  prayers of the day's list and reports 5 minus that count as remaining; the count lies
  between 0 and 5.
\<close>

theorem updateStats_denominator:
  "prayers True = (prayers False)[1 := ''Jummah'']
   \<and> prayers False ! 1 = ''Dhuhr''
   \<and> length (prayers (isFriday now)) = 5
   \<and> fst (updateStats now s)
       = int (length (filter (isCompleted s (getTodayKey now)) (prayers (isFriday now))))
   \<and> snd (updateStats now s) = 5 - fst (updateStats now s)
   \<and> 0 \<le> fst (updateStats now s) \<and> fst (updateStats now s) \<le> 5"
proof -
  have len: "length (prayers (isFriday now)) = 5" by (simp add: prayers_def)
  have "length (filter (isCompleted s (getTodayKey now)) (prayers (isFriday now))) \<le> 5"
    using length_filter_le [of "isCompleted s (getTodayKey now)" "prayers (isFriday now)"]
    by (simp only: len)
  then have "fst (updateStats now s) \<le> 5" "0 \<le> fst (updateStats now s)"
    by (simp_all add: updateStats_count)
  moreover have "snd (updateStats now s) = 5 - fst (updateStats now s)"
    by (simp add: updateStats_def Let_def)
  moreover have "prayers True = (prayers False)[1 := ''Jummah'']" "prayers False ! 1 = ''Dhuhr''"
    by (simp_all add: prayers_def)
  ultimately show ?thesis using len updateStats_count by blast
qed

theorem updateStats_denominator_witness:
  "isFriday friday_1300
   \<and> prayers (isFriday friday_1300) = [''Fajr'', ''Jummah'', ''Asr'', ''Maghrib'', ''Isha'']
   \<and> updateStats friday_1300
        (togglePrayer friday_1300 (useDefaultPrayerTimes True) True ''Jummah'' initial) = (1, 4)"
proof -
  let ?s = "togglePrayer friday_1300 (useDefaultPrayerTimes True) True ''Jummah'' initial"
  have f: "isFriday friday_1300" by code_simp
  have c: "filter (isCompleted ?s (getTodayKey friday_1300)) (prayers True) = [''Jummah'']"
    by code_simp
  show ?thesis
    using updateStats_denominator [of friday_1300 ?s] f c
    by (simp add: prod_eq_iff prayers_def)
qed

text \<open>
  C10. In every reachable state no pair of a day key and a prayer is both in the
  completion record and in the missed record. Marking a prayer complete leaves no missed
  entry for today and the prayer, and removes today's missed bucket when that entry was
  its only one. The check for missed prayers leaves the missed entry of a pair that has a
  completion mark as it was.
\<close>

theorem completed_missed_disjoint:
  assumes "reachable s"
  shows "\<not> (get2 (completedPrayers s) k p \<noteq> None \<and> get2 (missedPrayers s) k p \<noteq> None)
       \<and> get2 (missedPrayers (togglePrayer now pt True p s)) (getTodayKey now) p = None
       \<and> (get2 (missedPrayers s) (getTodayKey now) p \<noteq> None \<and>
            (\<forall>q. q \<noteq> p \<longrightarrow> get2 (missedPrayers s) (getTodayKey now) q = None) \<longrightarrow>
          map_of (missedPrayers (togglePrayer now pt True p s)) (getTodayKey now) = None)
       \<and> (get2 (completedPrayers s) (getTodayKey now) p \<noteq> None \<longrightarrow>
            get2 (missedPrayers (checkForMissedPrayers now pt s)) (getTodayKey now) p
              = get2 (missedPrayers s) (getTodayKey now) p)"
proof -
  note inv = reachable_marks [OF assms]
  have a: "\<not> (get2 (completedPrayers s) k p \<noteq> None \<and> get2 (missedPrayers s) k p \<noteq> None)"
    using inv [THEN conjunct2, rule_format, of k p] by auto
  have b: "get2 (missedPrayers (togglePrayer now pt True p s)) (getTodayKey now) p = None"
    by (simp add: toggle_missed)
  have c: "get2 (missedPrayers s) (getTodayKey now) p \<noteq> None \<and>
            (\<forall>q. q \<noteq> p \<longrightarrow> get2 (missedPrayers s) (getTodayKey now) q = None) \<longrightarrow>
          map_of (missedPrayers (togglePrayer now pt True p s)) (getTodayKey now) = None"
    using toggle_checked_drops_bucket [of s now p pt] by blast
  have d: "get2 (completedPrayers s) (getTodayKey now) p \<noteq> None \<longrightarrow>
            get2 (missedPrayers (checkForMissedPrayers now pt s)) (getTodayKey now) p
              = get2 (missedPrayers s) (getTodayKey now) p"
  proof
    assume "get2 (completedPrayers s) (getTodayKey now) p \<noteq> None"
    then have "isCompleted s (getTodayKey now) p"
      using inv [THEN conjunct1, rule_format, of "getTodayKey now" p]
      by (auto simp: isCompleted_def)
    then show "get2 (missedPrayers (checkForMissedPrayers now pt s)) (getTodayKey now) p
              = get2 (missedPrayers s) (getTodayKey now) p"
      by (simp add: checkForMissedPrayers_def check_fold_missed)
  qed
  from a b c d show ?thesis by blast
qed

theorem completed_missed_disjoint_witness:
  "reachable (apply_event initial (Toggle monday_2005 (useDefaultPrayerTimes False) False ''Asr''))
   \<and> get2 (missedPrayers
          (apply_event initial (Toggle monday_2005 (useDefaultPrayerTimes False) False ''Asr'')))
        ''2-11-2026'' ''Asr'' = Some \<lparr>date = ''2-11-2026'', time = Str ''15:45''\<rparr>
   \<and> get2 (completedPrayers
          (apply_event initial (Toggle monday_2005 (useDefaultPrayerTimes False) False ''Asr'')))
        ''2-11-2026'' ''Asr'' = None
   \<and> map_of (missedPrayers
          (togglePrayer monday_2005 (useDefaultPrayerTimes False) True ''Asr''
            (apply_event initial (Toggle monday_2005 (useDefaultPrayerTimes False) False ''Asr''))))
        ''2-11-2026'' = None
   \<and> reachable (apply_event initial (Toggle monday_2005 (useDefaultPrayerTimes False) True ''Asr''))
   \<and> get2 (completedPrayers
          (apply_event initial (Toggle monday_2005 (useDefaultPrayerTimes False) True ''Asr'')))
        ''2-11-2026'' ''Asr'' = Some True
   \<and> get2 (missedPrayers
          (checkForMissedPrayers monday_2005 (useDefaultPrayerTimes False)
            (apply_event initial (Toggle monday_2005 (useDefaultPrayerTimes False) True ''Asr''))))
        ''2-11-2026'' ''Asr'' = None"
proof -
  let ?pt = "useDefaultPrayerTimes False"
  let ?a = "apply_event initial (Toggle monday_2005 ?pt False ''Asr'')"
  let ?b = "apply_event initial (Toggle monday_2005 ?pt True ''Asr'')"
  have k: "getTodayKey monday_2005 = ''2-11-2026''" by code_simp
  have ra: "reachable ?a" by (intro reachable_step reachable_initial)
  have rb: "reachable ?b" by (intro reachable_step reachable_initial)
  have ma: "missedPrayers ?a
            = [(''2-11-2026'', [(''Asr'', \<lparr>date = ''2-11-2026'', time = Str ''15:45''\<rparr>)])]"
    by code_simp
  have only: "get2 (missedPrayers ?a) ''2-11-2026'' ''Asr''
            = Some \<lparr>date = ''2-11-2026'', time = Str ''15:45''\<rparr>"
    "\<forall>q. q \<noteq> ''Asr'' \<longrightarrow> get2 (missedPrayers ?a) ''2-11-2026'' q = None"
    unfolding ma by (simp_all add: get2_def)
  have cb: "get2 (completedPrayers ?b) ''2-11-2026'' ''Asr'' = Some True" by code_simp
  have mb: "get2 (missedPrayers ?b) ''2-11-2026'' ''Asr'' = None" by code_simp
  note A = completed_missed_disjoint [OF ra, of "''2-11-2026''" "''Asr''" monday_2005 ?pt]
  note B = completed_missed_disjoint [OF rb, of "''2-11-2026''" "''Asr''" monday_2005 ?pt]
  have a1: "get2 (completedPrayers ?a) ''2-11-2026'' ''Asr'' = None"
    using A only(1) by simp
  have a2: "map_of (missedPrayers (togglePrayer monday_2005 ?pt True ''Asr'' ?a)) ''2-11-2026''
            = None"
    using A only unfolding k by simp
  have b1: "get2 (missedPrayers (checkForMissedPrayers monday_2005 ?pt ?b)) ''2-11-2026'' ''Asr''
            = None"
    using B cb mb unfolding k by auto
  from ra rb only(1) a1 a2 cb b1 show ?thesis by simp
qed

end
